theory Spec2Isabelle
  imports Main
begin

section \<open>Strings: the std::string and Boost operations the module calls\<close>

text \<open>
  A \<open>std::string\<close> is a \<open>string\<close> (a list of bytes). \<open>substr\<close> throws
  \<open>std::out_of_range\<close> when the start position lies beyond the end of the string; the
  exception is a value of the model.
\<close>

datatype std_exception = out_of_range

definition substr :: "string \<Rightarrow> nat \<Rightarrow> std_exception + string" where
  "substr s pos = (if pos \<le> length s then Inr (drop pos s) else Inl out_of_range)"

definition substr2 :: "string \<Rightarrow> nat \<Rightarrow> nat \<Rightarrow> std_exception + string" where
  "substr2 s pos n =
     (if pos \<le> length s then Inr (take n (drop pos s)) else Inl out_of_range)"

text \<open>\<open>s.find(c, pos)\<close>: the first index at or after \<open>pos\<close> holding \<open>c\<close>; \<open>None\<close> is \<open>npos\<close>.\<close>

fun find_idx :: "char \<Rightarrow> string \<Rightarrow> nat \<Rightarrow> nat option" where
  "find_idx c [] i = None"
| "find_idx c (x # xs) i = (if x = c then Some i else find_idx c xs (Suc i))"

definition str_find :: "string \<Rightarrow> char \<Rightarrow> nat \<Rightarrow> nat option" where
  "str_find s c pos = find_idx c (drop pos s) pos"

text \<open>\<open>boost::algorithm::starts_with\<close>.\<close>

definition starts_with :: "string \<Rightarrow> string \<Rightarrow> bool" where
  "starts_with s p = (take (length p) s = p)"

text \<open>
  \<open>boost::algorithm::trim\<close> removes the characters of \<open>std::isspace\<close> (classic locale:
  space, tab, line feed, vertical tab, form feed, carriage return) from both ends.
\<close>

definition is_space :: "char \<Rightarrow> bool" where
  "is_space c =
     (c = CHR '' '' \<or> c = CHR 0x09 \<or> c = CHR 0x0A \<or> c = CHR 0x0B \<or> c = CHR 0x0C \<or> c = CHR 0x0D)"

definition trim_left :: "string \<Rightarrow> string" where
  "trim_left s = dropWhile is_space s"

definition trim_right :: "string \<Rightarrow> string" where
  "trim_right s = rev (dropWhile is_space (rev s))"

definition trim :: "string \<Rightarrow> string" where
  "trim s = trim_left (trim_right s)"

text \<open>
  \<open>std::getline\<close> on a string stream, called until it fails: each call takes the characters
  up to the next line feed (which it discards); at the end of the stream a call that
  extracts no character fails. The first argument is the line read so far.
\<close>

fun getlines :: "string \<Rightarrow> string \<Rightarrow> string list" where
  "getlines cur [] = (if cur = [] then [] else [cur])"
| "getlines cur (c # cs) =
     (if c = CHR 0x0A then cur # getlines [] cs else getlines (cur @ [c]) cs)"

section \<open>Values of the surrounding session\<close>

text \<open>\<open>core::FilePath\<close> holds a path string; the default-constructed path is empty.\<close>

datatype FilePath = FilePath string

definition emptyPath :: FilePath where
  "emptyPath = FilePath []"

text \<open>\<open>core::Error\<close> with its \<open>summary()\<close>.\<close>

datatype Error = Error (summary: string)

text \<open>\<open>json::Value\<close>; a \<open>json::Object\<close> maps member names to values.\<close>

datatype json =
    JNull
  | JBool bool
  | JInt int
  | JStr string
  | JArr "json list"
  | JObj "(string \<times> json) list"

type_synonym json_object = "(string \<times> json) list"

text \<open>\<open>object[key] = v\<close>: insert the member or overwrite it.\<close>

fun json_set :: "string \<Rightarrow> json \<Rightarrow> json_object \<Rightarrow> json_object" where
  "json_set k v [] = [(k, v)]"
| "json_set k v ((k', v') # ms) =
     (if k' = k then (k, v) # ms else (k', v') # json_set k v ms)"

definition json_get :: "json_object \<Rightarrow> string \<Rightarrow> json option" where
  "json_get obj k = map_of obj k"

record JsonRpcRequest =
  params :: "json list"

record http_Request =
  uri :: string

text \<open>What the R function \<open>rmarkdown:::default_output_format\<close> returned, as the two
  reads \<open>getOutputFormat\<close> makes of it: the element \<open>name\<close> and the element \<open>options\<close>
  converted to JSON. Each read can fail on its own.\<close>

record r_output_format =
  rf_name :: "Error + string"
  rf_options :: "Error + json"

text \<open>
  The collaborators of the module that are not part of it: the file system and the path
  algebra behind \<open>core::FilePath\<close>, the path aliasing of \<open>module_context\<close>, the HTTP
  utilities, the R session, and the build and session options. The module's functions
  take them as a parameter, so every theorem holds for whatever they compute.
\<close>

record env =
  fp_exists :: "FilePath \<Rightarrow> bool"
  fp_parent :: "FilePath \<Rightarrow> FilePath"
  fp_complete :: "FilePath \<Rightarrow> string \<Rightarrow> FilePath"
  fp_childPath :: "FilePath \<Rightarrow> string \<Rightarrow> FilePath"
  fp_filename :: "FilePath \<Rightarrow> string"
  fp_absolutePath :: "FilePath \<Rightarrow> string"
  fp_extensionLowerCase :: "FilePath \<Rightarrow> string"
  createAliasedPath :: "FilePath \<Rightarrow> string"
  resolveAliasedPath :: "string \<Rightarrow> FilePath"
  previousRpubsUploadId :: "FilePath \<Rightarrow> string"
  rScriptPath :: "Error + FilePath"
  readParams :: "json list \<Rightarrow> Error + (string \<times> int \<times> string)"
  urlEncode :: "string \<Rightarrow> bool \<Rightarrow> string"
  urlDecode :: "string \<Rightarrow> string"
  pathAfterPrefix :: "http_Request \<Rightarrow> string \<Rightarrow> string"
  default_output_format :: "string \<Rightarrow> string \<Rightarrow> Error + r_output_format"
  system_file_mathjax :: "Error + string"
  ammendResults :: "string \<Rightarrow> FilePath \<Rightarrow> int \<Rightarrow> (json \<times> json) option"
  programMode :: string
  kSessionProgramModeDesktop :: string
  build_WIN32 :: bool
  build_APPLE :: bool
  kQtMathJaxConfigScript :: string

section \<open>Client events\<close>

datatype compile_output_type = kCompileOutputNormal | kCompileOutputError

datatype CompileOutput = CompileOutput compile_output_type string

text \<open>A client event is its type with its data. A function that enqueues events returns
  them as a list, oldest first.\<close>

datatype ClientEvent =
    kRmdRenderStarted json_object
  | kRmdRenderOutput CompileOutput
  | kRmdRenderCompleted json_object

section \<open>The render job: class RenderRmd\<close>

definition kRmdOutput :: string where
  "kRmdOutput = ''rmd_output''"

definition kRmdOutputLocation :: string where
  "kRmdOutputLocation = ''/'' @ kRmdOutput @ ''/''"

definition kMathjaxSegment :: string where
  "kMathjaxSegment = ''mathjax''"


text \<open>
  \<open>outputFormat_\<close> is a JSON object that \<open>getOutputFormat\<close> fills, before anything reads
  it, with exactly two members: \<open>format_name\<close>, always a string, and \<open>format_options\<close>.
  The record is that object.
\<close>

record OutputFormat =
  format_name :: string
  format_options :: json

definition OutputFormat_json :: "OutputFormat \<Rightarrow> json" where
  "OutputFormat_json f =
     JObj [(''format_name'', JStr (format_name f)), (''format_options'', format_options f)]"

record RenderRmd =
  isRunning_m :: bool
  terminationRequested_m :: bool
  targetFile_m :: FilePath
  sourceLine_m :: int
  outputFile_m :: FilePath
  encoding_m :: string
  outputFormat_m :: OutputFormat

text \<open>The private constructor; members it does not name are default-constructed.\<close>

definition new_RenderRmd :: "FilePath \<Rightarrow> int \<Rightarrow> RenderRmd" where
  "new_RenderRmd targetFile sourceLine =
     \<lparr>isRunning_m = False, terminationRequested_m = False, targetFile_m = targetFile,
      sourceLine_m = sourceLine, outputFile_m = emptyPath, encoding_m = [],
      outputFormat_m = \<lparr>format_name = [], format_options = JNull\<rparr>\<rparr>"

text \<open>\<open>terminate()\<close>, the request to stop.\<close>

definition terminate :: "RenderRmd \<Rightarrow> RenderRmd" where
  "terminate job = job\<lparr>terminationRequested_m := True\<rparr>"

definition isRunning :: "RenderRmd \<Rightarrow> bool" where
  "isRunning job = isRunning_m job"

definition outputFile :: "RenderRmd \<Rightarrow> FilePath" where
  "outputFile job = outputFile_m job"

definition hasOutput :: "env \<Rightarrow> RenderRmd \<Rightarrow> bool" where
  "hasOutput env job = (\<not> isRunning_m job \<and> fp_exists env (outputFile_m job))"

definition onRenderContinue :: "RenderRmd \<Rightarrow> bool" where
  "onRenderContinue job = (\<not> terminationRequested_m job)"

definition enqueRenderOutput :: "compile_output_type \<Rightarrow> string \<Rightarrow> ClientEvent list" where
  "enqueRenderOutput t output = [kRmdRenderOutput (CompileOutput t output)]"

text \<open>\<open>onRenderOutput\<close> appends the chunk to the shared buffer \<open>*pAllOutput\<close> and
  republishes it; it returns the buffer and the event.\<close>

definition onRenderOutput ::
  "compile_output_type \<Rightarrow> string \<Rightarrow> string \<Rightarrow> string \<times> ClientEvent list" where
  "onRenderOutput t output allOutput = (allOutput @ output, enqueRenderOutput t output)"

definition getOutputFormat :: "env \<Rightarrow> string \<Rightarrow> string \<Rightarrow> OutputFormat" where
  "getOutputFormat env path encoding =
     (case default_output_format env path encoding of
        Inl error \<Rightarrow> \<lparr>format_name = [], format_options = JNull\<rparr>
      | Inr sexpOutputFormat \<Rightarrow>
          \<lparr>format_name = (case rf_name sexpOutputFormat of Inl error \<Rightarrow> [] | Inr n \<Rightarrow> n),
           format_options =
             (case rf_options sexpOutputFormat of Inl error \<Rightarrow> JNull | Inr v \<Rightarrow> v)\<rparr>)"

text \<open>
  Modelled from the spec: \<open>ammendResults\<close> (RMarkdownPresentation.cpp, which is not
  among the sources) is the post-processor of the output format. It may add to the
  result of a format; the members it gives are the two slide members, which
  \<open>terminate\<close> has set to "no slide" just before, and the environment returns them as a
  pair when the format has slides.
\<close>

text \<open>\<open>terminate(bool succeeded)\<close>: the job stops running and the completion event is
  built and enqueued.\<close>

definition terminate_bool :: "env \<Rightarrow> bool \<Rightarrow> RenderRmd \<Rightarrow> RenderRmd \<times> ClientEvent list" where
  "terminate_bool env succeeded job =
     (let resultJson = json_set ''succeeded'' (JBool succeeded) [];
          resultJson =
            json_set ''target_file'' (JStr (createAliasedPath env (targetFile_m job))) resultJson;
          outputFile = createAliasedPath env (outputFile_m job);
          resultJson = json_set ''output_file'' (JStr outputFile) resultJson;
          outputUrl = kRmdOutput @ ''/'';
          encodedOutputFile = urlEncode env (urlEncode env outputFile False) False;
          encodedOutputFile =
            (if build_WIN32 env then urlEncode env encodedOutputFile False
             else encodedOutputFile);
          outputUrl = outputUrl @ encodedOutputFile;
          outputUrl = outputUrl @ ''/'';
          resultJson = json_set ''output_url'' (JStr outputUrl) resultJson;
          resultJson =
            json_set ''output_format'' (OutputFormat_json (outputFormat_m job)) resultJson;
          resultJson = json_set ''preview_slide'' (JInt (- 1)) resultJson;
          resultJson = json_set ''slide_navigation'' JNull resultJson;
          resultJson =
            (if fp_extensionLowerCase env (outputFile_m job) = ''.html''
             then json_set ''rpubs_published''
                    (JBool (previousRpubsUploadId env (outputFile_m job) \<noteq> [])) resultJson
             else json_set ''rpubs_published'' (JBool False) resultJson);
          resultJson =
            (case ammendResults env (format_name (outputFormat_m job)) (targetFile_m job)
                    (sourceLine_m job) of
               None \<Rightarrow> resultJson
             | Some (slide, navigation) \<Rightarrow>
                 json_set ''slide_navigation'' navigation
                   (json_set ''preview_slide'' slide resultJson))
      in (job\<lparr>isRunning_m := False\<rparr>, [kRmdRenderCompleted resultJson]))"

definition terminateWithError_message ::
  "env \<Rightarrow> string \<Rightarrow> RenderRmd \<Rightarrow> RenderRmd \<times> ClientEvent list" where
  "terminateWithError_message env message job =
     (let (job', evs) = terminate_bool env False job
      in (job', enqueRenderOutput kCompileOutputError message @ evs))"

definition terminateWithError :: "env \<Rightarrow> Error \<Rightarrow> RenderRmd \<Rightarrow> RenderRmd \<times> ClientEvent list" where
  "terminateWithError env error job =
     terminateWithError_message env
       (''Error rendering R Markdown for '' @ createAliasedPath env (targetFile_m job) @ '' '' @
        summary error)
       job"

definition completeMarker :: string where
  "completeMarker = ''Output created: ''"

text \<open>
  The loop of \<open>onRenderCompleted\<close> over the lines of the buffered output: the first line
  that starts with the marker sets \<open>outputFile_\<close> and leaves the loop. The last argument
  is \<open>outputFile_\<close> before the loop.
\<close>

fun onRenderCompleted_scan ::
  "env \<Rightarrow> FilePath \<Rightarrow> string list \<Rightarrow> FilePath \<Rightarrow> std_exception + FilePath" where
  "onRenderCompleted_scan env targetFile [] outputFile0 = Inr outputFile0"
| "onRenderCompleted_scan env targetFile (renderLine # rest) outputFile0 =
     (if starts_with renderLine completeMarker then
        (case substr renderLine (length completeMarker) of
           Inl e \<Rightarrow> Inl e
         | Inr fileName \<Rightarrow> Inr (fp_complete env (fp_parent env targetFile) (trim fileName)))
      else onRenderCompleted_scan env targetFile rest outputFile0)"

definition onRenderCompleted ::
  "env \<Rightarrow> int \<Rightarrow> string \<Rightarrow> string \<Rightarrow> RenderRmd \<Rightarrow> std_exception + RenderRmd \<times> ClientEvent list" where
  "onRenderCompleted env exitStatus encoding allOutput job =
     (case onRenderCompleted_scan env (targetFile_m job) (getlines [] allOutput)
             (outputFile_m job) of
        Inl e \<Rightarrow> Inl e
      | Inr f \<Rightarrow>
          (let job' = job\<lparr>outputFile_m := f\<rparr>
           in Inr (terminate_bool env (exitStatus = 0 \<and> fp_exists env (outputFile_m job')) job')))"

text \<open>
  A program handed to the process supervisor: what \<open>runProgram\<close> received, the job its
  callbacks are bound to (\<open>shared_from_this()\<close>, an index into the heap of jobs), and the
  output buffer \<open>*pAllOutput\<close> that the callbacks share.
\<close>

record ProcessOptions =
  terminateChildren :: bool
  workingDir :: FilePath

record process =
  proc_program :: string
  proc_args :: "string list"
  proc_options :: ProcessOptions
  proc_job :: nat
  proc_encoding :: string
  proc_allOutput :: string

definition performRender ::
  "env \<Rightarrow> nat \<Rightarrow> string \<Rightarrow> RenderRmd \<Rightarrow> RenderRmd \<times> ClientEvent list \<times> process list" where
  "performRender env this encoding job0 =
     (let job = job0\<lparr>encoding_m := encoding\<rparr>
      in case rScriptPath env of
           Inl error \<Rightarrow>
             (let (job', evs) = terminateWithError env error job in (job', evs, []))
         | Inr rProgramPath \<Rightarrow>
             (let args = [''--slave'', ''--no-save'', ''--no-restore'', ''-e''];
                  cmd = ''rmarkdown::render('' @ [CHR 0x27] @ fp_filename env (targetFile_m job) @
                        [CHR 0x27] @ '', encoding='' @ [CHR 0x27] @ encoding @ [CHR 0x27] @ '');'';
                  args = args @ [cmd];
                  options = \<lparr>terminateChildren = True,
                             workingDir = fp_parent env (targetFile_m job)\<rparr>
              in (job, [],
                  [\<lparr>proc_program = fp_absolutePath env rProgramPath, proc_args = args,
                    proc_options = options, proc_job = this, proc_encoding = encoding,
                    proc_allOutput = []\<rparr>])))"

definition start ::
  "env \<Rightarrow> nat \<Rightarrow> string \<Rightarrow> RenderRmd \<Rightarrow> RenderRmd \<times> ClientEvent list \<times> process list" where
  "start env this encoding job0 =
     (let job = job0\<lparr>outputFormat_m :=
                   getOutputFormat env (fp_absolutePath env (targetFile_m job0)) encoding\<rparr>;
          dataJson = json_set ''output_format'' (OutputFormat_json (outputFormat_m job)) [];
          dataJson =
            json_set ''target_file'' (JStr (createAliasedPath env (targetFile_m job))) dataJson;
          job = job\<lparr>isRunning_m := True\<rparr>;
          (job', evs, procs) = performRender env this encoding job
      in (job', kRmdRenderStarted dataJson # evs, procs))"

section \<open>The supervisor: the current-job slot and the RPC methods\<close>

text \<open>
  Jobs are shared objects: the slot \<open>s_pCurrentRender_\<close> and the callbacks of a launched
  program both point to one. The heap holds every job created; a pointer is an index
  into it, and \<open>None\<close> is the null pointer. \<open>clientEvents\<close> is the queue of published
  events, \<open>supervisor\<close> the programs given to the process supervisor.
\<close>

record world =
  heap :: "RenderRmd list"
  s_pCurrentRender :: "nat option"
  clientEvents :: "ClientEvent list"
  supervisor :: "process list"

definition deref :: "world \<Rightarrow> nat \<Rightarrow> RenderRmd option" where
  "deref w p = (if p < length (heap w) then Some (heap w ! p) else None)"

text \<open>\<open>RenderRmd::create\<close>: allocate the job, start it, return the pointer.\<close>

definition create :: "env \<Rightarrow> FilePath \<Rightarrow> int \<Rightarrow> string \<Rightarrow> world \<Rightarrow> nat \<times> world" where
  "create env targetFile sourceLine encoding w =
     (let pRender = length (heap w);
          (job, evs, procs) = start env pRender encoding (new_RenderRmd targetFile sourceLine)
      in (pRender,
          w\<lparr>heap := heap w @ [job], clientEvents := clientEvents w @ evs,
            supervisor := supervisor w @ procs\<rparr>))"

definition isRenderRunning :: "world \<Rightarrow> bool" where
  "isRenderRunning w =
     (case s_pCurrentRender w of
        None \<Rightarrow> False
      | Some p \<Rightarrow> (case deref w p of None \<Rightarrow> False | Some job \<Rightarrow> isRunning job))"

text \<open>
  \<open>renderRmd\<close> returns the error of \<open>readParams\<close> (\<open>Inl\<close>), or \<open>Success()\<close> with the
  boolean it set as the result of the response (\<open>Inr\<close>).
\<close>

definition renderRmd :: "env \<Rightarrow> JsonRpcRequest \<Rightarrow> world \<Rightarrow> (Error + bool) \<times> world" where
  "renderRmd env request w =
     (case readParams env (params request) of
        Inl error \<Rightarrow> (Inl error, w)
      | Inr (file, line, encoding) \<Rightarrow>
          if isRenderRunning w then (Inr False, w)
          else (let (p, w') = create env (resolveAliasedPath env file) line encoding w
                in (Inr True, w'\<lparr>s_pCurrentRender := Some p\<rparr>)))"

text \<open>\<open>terminateRenderRmd\<close> returns \<open>Success()\<close>, the absence of an error.\<close>

definition terminateRenderRmd :: "world \<Rightarrow> Error option \<times> world" where
  "terminateRenderRmd w =
     (if isRenderRunning w then
        (case s_pCurrentRender w of
           None \<Rightarrow> (None, w)
         | Some p \<Rightarrow> (None, w\<lparr>heap := (heap w)[p := terminate (heap w ! p)]\<rparr>))
      else (None, w))"

text \<open>The \<open>onContinue\<close> callback of a launched program, as the process supervisor polls it:
  \<open>onRenderContinue\<close> of the job the callback is bound to.\<close>

definition cb_onContinue :: "world \<Rightarrow> process \<Rightarrow> bool option" where
  "cb_onContinue w pr = map_option onRenderContinue (deref w (proc_job pr))"

section \<open>The content rewriter: class MathjaxFilter\<close>


record MathjaxFilter =
  hasMathjax_m :: bool

definition new_MathjaxFilter :: MathjaxFilter where
  "new_MathjaxFilter = \<lparr>hasMathjax_m = False\<rparr>"



subsection \<open>The matches of the filter's regular expression\<close>

text \<open>
  The expression that the constructor builds has five alternatives: the comment
  \<open>kMathjaxBeginComment\<close>, the three literals \<open>\[\<close>, \<open>\(\<close> and \<open><math\<close>, and the line
  that loads MathJax,
  \<^verbatim>\<open>^(\s*script.src\s*=\s*)"http.*?(MathJax.js[^"]*)"\<close>.
  No two alternatives can match at one position (the first four begin with \<open><\<close> or a
  backslash, the fifth with white space or \<open>s\<close>), so their order does not matter.
\<close>










subsection \<open>What the rewriter is to write for a match\<close>





section \<open>The output resource server\<close>

datatype http_status = NotFound

text \<open>What the handler did to the response, call by call.\<close>

datatype response_call =
    setError http_status string
  | setNoCacheHeaders
  | setFile FilePath MathjaxFilter
  | setCacheableFile FilePath

definition mathJaxDirectory :: "env \<Rightarrow> FilePath" where
  "mathJaxDirectory env =
     (case system_file_mathjax env of Inl error \<Rightarrow> emptyPath | Inr path \<Rightarrow> FilePath path)"

text \<open>
  \<open>handleRmdOutputRequest\<close> returns the calls it made on the response, or the exception
  that left it; every \<open>substr\<close> stands before the first call on the response of its
  branch. \<open>sizeof(kMathjaxSegment)\<close> counts the terminating zero of the literal.
\<close>

definition sizeof_kMathjaxSegment :: nat where
  "sizeof_kMathjaxSegment = length kMathjaxSegment + 1"

definition handleRmdOutputRequest ::
  "env \<Rightarrow> http_Request \<Rightarrow> std_exception + response_call list" where
  "handleRmdOutputRequest env request =
     (let path = pathAfterPrefix env request kRmdOutputLocation
      in case str_find path CHR ''/'' 1 of
           None \<Rightarrow> Inr [setError NotFound ''No output file found'']
         | Some pos \<Rightarrow>
             (case substr2 path 0 pos of
                Inl e \<Rightarrow> Inl e
              | Inr encoded \<Rightarrow>
                  (let outputFile = urlDecode env encoded;
                       outputFilePath = resolveAliasedPath env outputFile
                   in if \<not> fp_exists env outputFilePath
                      then Inr [setError NotFound (outputFile @ '' not found'')]
                      else
                        (case substr2 path (pos + 1) (length path) of
                           Inl e \<Rightarrow> Inl e
                         | Inr path' \<Rightarrow>
                             if path' = [] then
                               Inr [setNoCacheHeaders, setFile outputFilePath new_MathjaxFilter]
                             else if starts_with path' kMathjaxSegment then
                               (case substr path' sizeof_kMathjaxSegment of
                                  Inl e \<Rightarrow> Inl e
                                | Inr resource \<Rightarrow>
                                    Inr [setCacheableFile
                                           (fp_complete env (mathJaxDirectory env) resource)])
                             else
                               Inr [setCacheableFile
                                      (fp_childPath env (fp_parent env outputFilePath) path')]))))"

section \<open>A sample environment\<close>

text \<open>
  One concrete environment, on which the examples below are computed: POSIX paths, no
  path aliasing, a percent-encoding of the three characters the examples need, an R
  session that answers every call, a server session on a build that is neither Windows
  nor macOS. \<open>pathAfterPrefix\<close> strips the prefix and makes the one decoding pass of
  the HTTP layer, so a request carries the artifact path encoded twice. The argument of
  the environment lists the files that exist.
\<close>

definition sample_dirname :: "string \<Rightarrow> string" where
  "sample_dirname s = rev (tl (dropWhile (\<lambda>c. c \<noteq> CHR ''/'') (rev s)))"

definition sample_basename :: "string \<Rightarrow> string" where
  "sample_basename s = rev (takeWhile (\<lambda>c. c \<noteq> CHR ''/'') (rev s))"

definition sample_extension :: "string \<Rightarrow> string" where
  "sample_extension s =
     (let name = sample_basename s
      in if CHR ''.'' \<in> set name
         then CHR ''.'' # rev (takeWhile (\<lambda>c. c \<noteq> CHR ''.'') (rev name)) else [])"

fun sample_encode_char :: "char \<Rightarrow> string" where
  "sample_encode_char c =
     (if c = CHR ''/'' then ''%2F'' else if c = CHR ''%'' then ''%25''
      else if c = CHR '' '' then ''%20'' else [c])"

definition sample_urlEncode :: "string \<Rightarrow> bool \<Rightarrow> string" where
  "sample_urlEncode s queryStringSpaces = concat (map sample_encode_char s)"

fun sample_urlDecode :: "string \<Rightarrow> string" where
  "sample_urlDecode (a # b # c # rest) =
     (if [a, b, c] = ''%2F'' then CHR ''/'' # sample_urlDecode rest
      else if [a, b, c] = ''%25'' then CHR ''%'' # sample_urlDecode rest
      else if [a, b, c] = ''%20'' then CHR '' '' # sample_urlDecode rest
      else a # sample_urlDecode (b # c # rest))"
| "sample_urlDecode s = s"

fun sample_readParams :: "json list \<Rightarrow> Error + (string \<times> int \<times> string)" where
  "sample_readParams (JStr file # JInt line # JStr encoding # rest) = Inr (file, line, encoding)"
| "sample_readParams ps = Inl (Error ''invalid params'')"

fun sample_complete :: "FilePath \<Rightarrow> string \<Rightarrow> FilePath" where
  "sample_complete (FilePath base) s =
     (if s = [] \<or> starts_with s ''/'' then FilePath s else FilePath (base @ ''/'' @ s))"

definition sample_env :: "FilePath list \<Rightarrow> env" where
  "sample_env files =
     \<lparr>fp_exists = (\<lambda>p. p \<in> set files),
      fp_parent = (\<lambda>p. case p of FilePath s \<Rightarrow> FilePath (sample_dirname s)),
      fp_complete = sample_complete,
      fp_childPath = (\<lambda>p s. case p of FilePath base \<Rightarrow> FilePath (base @ ''/'' @ s)),
      fp_filename = (\<lambda>p. case p of FilePath s \<Rightarrow> sample_basename s),
      fp_absolutePath = (\<lambda>p. case p of FilePath s \<Rightarrow> s),
      fp_extensionLowerCase = (\<lambda>p. case p of FilePath s \<Rightarrow> sample_extension s),
      createAliasedPath = (\<lambda>p. case p of FilePath s \<Rightarrow> s),
      resolveAliasedPath = FilePath,
      previousRpubsUploadId = (\<lambda>p. []),
      rScriptPath = Inr (FilePath ''/usr/bin/Rscript''),
      readParams = sample_readParams,
      urlEncode = sample_urlEncode,
      urlDecode = sample_urlDecode,
      pathAfterPrefix =
        (\<lambda>request prefix.
           sample_urlDecode
             (if starts_with (uri request) prefix then drop (length prefix) (uri request)
              else uri request)),
      default_output_format =
        (\<lambda>path encoding. Inr \<lparr>rf_name = Inr ''html_document'', rf_options = Inr JNull\<rparr>),
      system_file_mathjax = Inr ''/usr/lib/R/library/rmarkdown/rmd/h/m'',
      ammendResults = (\<lambda>formatName targetFile sourceLine. None),
      programMode = ''server'',
      kSessionProgramModeDesktop = ''desktop'',
      build_WIN32 = False,
      build_APPLE = False,
      kQtMathJaxConfigScript = ''<script>MathJax.Hub.Config({});</script>''\<rparr>"

definition initial_world :: world where
  "initial_world = \<lparr>heap = [], s_pCurrentRender = None, clientEvents = [], supervisor = []\<rparr>"

text \<open>A job as \<open>start\<close> leaves it in the sample environment: running, nothing rendered yet.\<close>

definition sample_job :: RenderRmd where
  "sample_job =
     \<lparr>isRunning_m = True, terminationRequested_m = False,
      targetFile_m = FilePath ''/home/u/doc.Rmd'', sourceLine_m = 1, outputFile_m = emptyPath,
      encoding_m = ''UTF-8'',
      outputFormat_m = \<lparr>format_name = ''html_document'', format_options = JNull\<rparr>\<rparr>"

text \<open>The slot is null or points into the heap: a shared pointer never dangles.\<close>

definition wf_world :: "world \<Rightarrow> bool" where
  "wf_world w = (case s_pCurrentRender w of None \<Rightarrow> True | Some p \<Rightarrow> p < length (heap w))"

text \<open>A request to render the sample document, and a world in which the sample job is
  the current one.\<close>

definition sample_request :: JsonRpcRequest where
  "sample_request = \<lparr>params = [JStr ''/home/u/doc.Rmd'', JInt 3, JStr ''UTF-8'']\<rparr>"

definition sample_running_world :: world where
  "sample_running_world =
     \<lparr>heap = [sample_job], s_pCurrentRender = Some 0, clientEvents = [], supervisor = []\<rparr>"






section \<open>Facts about the string and JSON operations\<close>

lemma json_get_json_set:
  "json_get (json_set k v obj) k' = (if k' = k then Some v else json_get obj k')"
  by (induction obj) (auto simp: json_get_def)

lemma starts_with_length: "starts_with s p \<Longrightarrow> length p \<le> length s"
proof -
  assume "starts_with s p"
  then have "length (take (length p) s) = length p"
    by (simp add: starts_with_def)
  then show ?thesis by simp
qed

lemma substr_after_prefix:
  "starts_with s p \<Longrightarrow> substr s (length p) = Inr (drop (length p) s)"
  by (simp add: substr_def starts_with_length)

section \<open>Completion of a render job\<close>

text \<open>
  The loop over the output lines never throws, and what it leaves in \<open>outputFile_\<close> is
  decided by the first line that starts with the marker.
\<close>

lemma onRenderCompleted_scan_find:
  "onRenderCompleted_scan env targetFile ls f0 =
     Inr (case List.find (\<lambda>l. starts_with l completeMarker) ls of
            None \<Rightarrow> f0
          | Some l \<Rightarrow>
              fp_complete env (fp_parent env targetFile) (trim (drop (length completeMarker) l)))"
  by (induction ls) (simp_all add: substr_after_prefix)

text \<open>The completion event that \<open>terminate(bool)\<close> enqueues, member by member.\<close>

lemma terminate_bool_event:
  "\<exists>resultJson.
     terminate_bool env succeeded job =
       (job\<lparr>isRunning_m := False\<rparr>, [kRmdRenderCompleted resultJson]) \<and>
     json_get resultJson ''succeeded'' = Some (JBool succeeded) \<and>
     json_get resultJson ''target_file'' =
       Some (JStr (createAliasedPath env (targetFile_m job))) \<and>
     json_get resultJson ''output_file'' =
       Some (JStr (createAliasedPath env (outputFile_m job))) \<and>
     json_get resultJson ''output_url'' =
       Some (JStr (kRmdOutput @ ''/'' @
          (if build_WIN32 env
           then urlEncode env
                  (urlEncode env
                     (urlEncode env (createAliasedPath env (outputFile_m job)) False) False)
                  False
           else urlEncode env (urlEncode env (createAliasedPath env (outputFile_m job)) False)
                  False) @ ''/''))"
  unfolding terminate_bool_def Let_def
  by (simp add: json_get_json_set del: json_set.simps split: option.split prod.split)

lemma onRenderCompleted_result:
  assumes "f = (case List.find (\<lambda>l. starts_with l completeMarker) (getlines [] allOutput) of
                  None \<Rightarrow> outputFile_m job
                | Some l \<Rightarrow>
                    fp_complete env (fp_parent env (targetFile_m job))
                      (trim (drop (length completeMarker) l)))"
  shows "\<exists>resultJson.
     onRenderCompleted env exitStatus encoding allOutput job =
       Inr (job\<lparr>outputFile_m := f, isRunning_m := False\<rparr>, [kRmdRenderCompleted resultJson]) \<and>
     json_get resultJson ''succeeded'' = Some (JBool (exitStatus = 0 \<and> fp_exists env f)) \<and>
     json_get resultJson ''output_file'' = Some (JStr (createAliasedPath env f))"
proof -
  obtain r where r:
    "terminate_bool env (exitStatus = 0 \<and> fp_exists env f) (job\<lparr>outputFile_m := f\<rparr>) =
       (job\<lparr>outputFile_m := f, isRunning_m := False\<rparr>, [kRmdRenderCompleted r])"
    "json_get r ''succeeded'' = Some (JBool (exitStatus = 0 \<and> fp_exists env f))"
    "json_get r ''output_file'' = Some (JStr (createAliasedPath env f))"
    using terminate_bool_event [of env "exitStatus = 0 \<and> fp_exists env f" "job\<lparr>outputFile_m := f\<rparr>"]
    by auto
  have "onRenderCompleted env exitStatus encoding allOutput job =
          Inr (job\<lparr>outputFile_m := f, isRunning_m := False\<rparr>, [kRmdRenderCompleted r])"
    unfolding onRenderCompleted_def onRenderCompleted_scan_find
    using r(1) assms by (simp add: Let_def)
  with r show ?thesis by blast
qed

text \<open>
  Claim C2. When the render process has exited, \<open>onRenderCompleted\<close> returns normally,
  leaves in \<open>outputFile_\<close> the file resolved from the output (the name on the first
  marker line, trimmed and completed against the directory of the target file; the
  field as it was when no line has the marker), and publishes exactly one completion
  event. Its member \<open>succeeded\<close> is true if and only if the exit code is zero and that
  resolved file exists. So a nonzero exit code gives \<open>succeeded = false\<close> whatever the
  output held, a marker line included.
\<close>

theorem onRenderCompleted_success_iff:
  "let resolved =
         (case List.find (\<lambda>l. starts_with l completeMarker) (getlines [] allOutput) of
            None \<Rightarrow> outputFile_m job
          | Some l \<Rightarrow>
              fp_complete env (fp_parent env (targetFile_m job))
                (trim (drop (length completeMarker) l)))
   in \<exists>resultJson.
        onRenderCompleted env exitStatus encoding allOutput job =
          Inr (job\<lparr>outputFile_m := resolved, isRunning_m := False\<rparr>,
               [kRmdRenderCompleted resultJson]) \<and>
        json_get resultJson ''succeeded'' =
          Some (JBool (exitStatus = 0 \<and> fp_exists env resolved)) \<and>
        (exitStatus \<noteq> 0 \<longrightarrow> json_get resultJson ''succeeded'' = Some (JBool False))"
  unfolding Let_def
  using onRenderCompleted_result [OF refl, of env exitStatus encoding allOutput job]
  by force

text \<open>The output of the examples names \<open>doc.html\<close> on a marker line that ends in CR LF.\<close>

lemma sample_marker_resolved:
  "(case List.find (\<lambda>l. starts_with l completeMarker)
           (getlines [] (''Output created: doc.html'' @ [CHR 0x0D, CHR 0x0A])) of
      None \<Rightarrow> outputFile_m sample_job
    | Some l \<Rightarrow>
        fp_complete (sample_env files) (fp_parent (sample_env files) (targetFile_m sample_job))
          (trim (drop (length completeMarker) l))) = FilePath ''/home/u/doc.html''"
  by (simp add: completeMarker_def starts_with_def trim_def trim_left_def trim_right_def
      is_space_def sample_env_def sample_job_def sample_dirname_def)

text \<open>Exit code 0 and the file exists: success. Exit code 1 and the file exists: failure.
  Exit code 0 and the file does not exist: failure.\<close>

theorem onRenderCompleted_success_iff_witness:
  "(\<exists>resultJson.
      onRenderCompleted (sample_env [FilePath ''/home/u/doc.html'']) 0 ''UTF-8''
          (''Output created: doc.html'' @ [CHR 0x0D, CHR 0x0A]) sample_job =
        Inr (sample_job\<lparr>outputFile_m := FilePath ''/home/u/doc.html'', isRunning_m := False\<rparr>,
             [kRmdRenderCompleted resultJson]) \<and>
      json_get resultJson ''succeeded'' = Some (JBool True)) \<and>
   (\<exists>resultJson.
      onRenderCompleted (sample_env [FilePath ''/home/u/doc.html'']) 1 ''UTF-8''
          (''Output created: doc.html'' @ [CHR 0x0D, CHR 0x0A]) sample_job =
        Inr (sample_job\<lparr>outputFile_m := FilePath ''/home/u/doc.html'', isRunning_m := False\<rparr>,
             [kRmdRenderCompleted resultJson]) \<and>
      json_get resultJson ''succeeded'' = Some (JBool False)) \<and>
   (\<exists>resultJson.
      onRenderCompleted (sample_env []) 0 ''UTF-8''
          (''Output created: doc.html'' @ [CHR 0x0D, CHR 0x0A]) sample_job =
        Inr (sample_job\<lparr>outputFile_m := FilePath ''/home/u/doc.html'', isRunning_m := False\<rparr>,
             [kRmdRenderCompleted resultJson]) \<and>
      json_get resultJson ''succeeded'' = Some (JBool False))"
proof -
  have e: "fp_exists (sample_env [FilePath ''/home/u/doc.html'']) (FilePath ''/home/u/doc.html'')"
    "\<not> fp_exists (sample_env []) (FilePath ''/home/u/doc.html'')"
    by (simp_all add: sample_env_def)
  from onRenderCompleted_success_iff [where allOutput = "''Output created: doc.html'' @ [CHR 0x0D, CHR 0x0A]"
      and job = sample_job and env = "sample_env [FilePath ''/home/u/doc.html'']" and exitStatus = 0 and encoding = "''UTF-8''"]
  have a: "\<exists>resultJson.
      onRenderCompleted (sample_env [FilePath ''/home/u/doc.html'']) 0 ''UTF-8''
          (''Output created: doc.html'' @ [CHR 0x0D, CHR 0x0A]) sample_job =
        Inr (sample_job\<lparr>outputFile_m := FilePath ''/home/u/doc.html'', isRunning_m := False\<rparr>,
             [kRmdRenderCompleted resultJson]) \<and>
      json_get resultJson ''succeeded'' = Some (JBool True)"
    unfolding Let_def sample_marker_resolved using e by simp
  from onRenderCompleted_success_iff [where allOutput = "''Output created: doc.html'' @ [CHR 0x0D, CHR 0x0A]"
      and job = sample_job and env = "sample_env [FilePath ''/home/u/doc.html'']" and exitStatus = 1 and encoding = "''UTF-8''"]
  have b: "\<exists>resultJson.
      onRenderCompleted (sample_env [FilePath ''/home/u/doc.html'']) 1 ''UTF-8''
          (''Output created: doc.html'' @ [CHR 0x0D, CHR 0x0A]) sample_job =
        Inr (sample_job\<lparr>outputFile_m := FilePath ''/home/u/doc.html'', isRunning_m := False\<rparr>,
             [kRmdRenderCompleted resultJson]) \<and>
      json_get resultJson ''succeeded'' = Some (JBool False)"
    unfolding Let_def sample_marker_resolved by simp
  from onRenderCompleted_success_iff [where allOutput = "''Output created: doc.html'' @ [CHR 0x0D, CHR 0x0A]"
      and job = sample_job and env = "sample_env []" and exitStatus = 0 and encoding = "''UTF-8''"]
  have c: "\<exists>resultJson.
      onRenderCompleted (sample_env []) 0 ''UTF-8''
          (''Output created: doc.html'' @ [CHR 0x0D, CHR 0x0A]) sample_job =
        Inr (sample_job\<lparr>outputFile_m := FilePath ''/home/u/doc.html'', isRunning_m := False\<rparr>,
             [kRmdRenderCompleted resultJson]) \<and>
      json_get resultJson ''succeeded'' = Some (JBool False)"
    unfolding Let_def sample_marker_resolved using e by simp
  from a b c show ?thesis by simp
qed

text \<open>
  Claim C3, as the code has it. After \<open>onRenderCompleted\<close> the member \<open>outputFile_\<close> holds
  the path named by the first marker line of the output, completed against the directory
  of the target file, whenever the output has such a line, whatever the exit code and
  whether or not that file exists; with no marker line it is left as it was (unset, for
  a job that has not completed before). The exit code and the existence of the file
  decide the \<open>succeeded\<close> member only.
\<close>

theorem outputFile_after_completion:
  "map_sum id (outputFile_m \<circ> fst) (onRenderCompleted env exitStatus encoding allOutput job) =
     Inr (case List.find (\<lambda>l. starts_with l completeMarker) (getlines [] allOutput) of
            None \<Rightarrow> outputFile_m job
          | Some l \<Rightarrow>
              fp_complete env (fp_parent env (targetFile_m job))
                (trim (drop (length completeMarker) l)))"
  using onRenderCompleted_result [OF refl, of env exitStatus encoding allOutput job]
  by force

text \<open>Exit code 0 and no marker line: the output file stays unset.\<close>

theorem outputFile_after_completion_witness:
  "map_sum id (outputFile_m \<circ> fst)
     (onRenderCompleted (sample_env []) 0 ''UTF-8'' (''processing file: doc.Rmd'' @ [CHR 0x0A])
        sample_job) = Inr emptyPath"
  using outputFile_after_completion [of "sample_env []" 0 "''UTF-8''"
      "''processing file: doc.Rmd'' @ [CHR 0x0A]" sample_job]
  by (simp add: sample_job_def completeMarker_def starts_with_def)

text \<open>
  Claim C3 as the specification words it fails: with exit code 1 and a marker line naming
  a file that does not exist, \<open>outputFile_\<close> is set all the same.
\<close>

theorem outputFile_set_despite_failure_counterexample:
  "map_sum id (outputFile_m \<circ> fst)
     (onRenderCompleted (sample_env []) 1 ''UTF-8''
        (''Output created: doc.html'' @ [CHR 0x0A]) sample_job) =
     Inr (FilePath ''/home/u/doc.html'') \<and>
   FilePath ''/home/u/doc.html'' \<noteq> emptyPath \<and>
   \<not> fp_exists (sample_env []) (FilePath ''/home/u/doc.html'')"
  by (simp add: onRenderCompleted_def sample_job_def sample_env_def completeMarker_def
      starts_with_def substr_def trim_def trim_left_def trim_right_def is_space_def
      sample_dirname_def terminate_bool_def Let_def emptyPath_def)

text \<open>
  Claim C4. The marker line \<open>Output created:  doc.html\<close> names the file \<open> doc.html\<close>, whose
  name begins with a space. Trimming the end of the name only, as the source's comment
  says, resolves to that file, which exists; \<open>boost::algorithm::trim\<close> also removes the
  leading space, and \<open>outputFile_\<close> names a file that does not exist.
\<close>

theorem marker_name_leading_space_trimmed:
  "map_sum id (outputFile_m \<circ> fst)
     (onRenderCompleted (sample_env [FilePath ''/home/u/ doc.html'']) 0 ''UTF-8''
        (''Output created:  doc.html'' @ [CHR 0x0A]) sample_job) =
     Inr (FilePath ''/home/u/doc.html'') \<and>
   fp_complete (sample_env [FilePath ''/home/u/ doc.html''])
     (fp_parent (sample_env [FilePath ''/home/u/ doc.html'']) (targetFile_m sample_job))
     (trim_right '' doc.html'') = FilePath ''/home/u/ doc.html'' \<and>
   fp_exists (sample_env [FilePath ''/home/u/ doc.html'']) (FilePath ''/home/u/ doc.html'') \<and>
   \<not> fp_exists (sample_env [FilePath ''/home/u/ doc.html'']) (FilePath ''/home/u/doc.html'')"
  by (simp add: onRenderCompleted_def sample_job_def sample_env_def completeMarker_def
      starts_with_def substr_def trim_def trim_left_def trim_right_def is_space_def
      sample_dirname_def terminate_bool_def Let_def emptyPath_def)

text \<open>
  Claim C7, as the code has it. The member \<open>output_url\<close> of the completion event is
  \<open>rmd_output/\<close>, the aliased output path URL-encoded twice, and \<open>/\<close>; a build for
  Windows encodes the path a third time.
\<close>

theorem output_url_encoding:
  "\<exists>job' resultJson.
     terminate_bool env succeeded job = (job', [kRmdRenderCompleted resultJson]) \<and>
     json_get resultJson ''output_url'' =
       Some (JStr (kRmdOutput @ ''/'' @
          (if build_WIN32 env
           then urlEncode env
                  (urlEncode env
                     (urlEncode env (createAliasedPath env (outputFile_m job)) False) False)
                  False
           else urlEncode env (urlEncode env (createAliasedPath env (outputFile_m job)) False)
                  False) @ ''/''))"
  using terminate_bool_event [of env succeeded job] by blast

theorem output_url_encoding_witness:
  "\<exists>job' resultJson.
     terminate_bool (sample_env []) True (sample_job\<lparr>outputFile_m := FilePath ''/home/u/doc.html''\<rparr>) =
       (job', [kRmdRenderCompleted resultJson]) \<and>
     json_get resultJson ''output_url'' = Some (JStr ''rmd_output/%252Fhome%252Fu%252Fdoc.html/'')"
  using output_url_encoding [of "sample_env []" True
      "sample_job\<lparr>outputFile_m := FilePath ''/home/u/doc.html''\<rparr>"]
  by (simp add: sample_env_def sample_job_def sample_urlEncode_def kRmdOutput_def)

text \<open>
  Claim C7 as the specification words it fails on a Windows build: the URL holds the path
  encoded three times, which is not the path encoded twice.
\<close>

theorem output_url_windows_counterexample:
  "snd (terminate_bool ((sample_env [FilePath ''/home/u/doc.html''])\<lparr>build_WIN32 := True\<rparr>) True
         (sample_job\<lparr>outputFile_m := FilePath ''/home/u/doc.html''\<rparr>)) =
     [kRmdRenderCompleted
       [(''succeeded'', JBool True),
        (''target_file'', JStr ''/home/u/doc.Rmd''),
        (''output_file'', JStr ''/home/u/doc.html''),
        (''output_url'', JStr ''rmd_output/%25252Fhome%25252Fu%25252Fdoc.html/''),
        (''output_format'',
         JObj [(''format_name'', JStr ''html_document''), (''format_options'', JNull)]),
        (''preview_slide'', JInt (- 1)), (''slide_navigation'', JNull),
        (''rpubs_published'', JBool False)]] \<and>
   ''rmd_output/%25252Fhome%25252Fu%25252Fdoc.html/'' \<noteq>
     kRmdOutput @ ''/'' @
     sample_urlEncode (sample_urlEncode ''/home/u/doc.html'' False) False @ ''/''"
  by (simp add: terminate_bool_def sample_job_def sample_env_def Let_def kRmdOutput_def
      sample_urlEncode_def sample_extension_def sample_basename_def OutputFormat_json_def)

section \<open>The supervisor\<close>

text \<open>The slot never dangles: every world the RPC methods reach from the initial one is
  well formed, and there the null test and the dereference of \<open>isRenderRunning\<close> read
  the heap directly.\<close>

lemma wf_initial_world: "wf_world initial_world"
  by (simp add: wf_world_def initial_world_def)

lemma renderRmd_wf: "wf_world w \<Longrightarrow> wf_world (snd (renderRmd env request w))"
  by (auto simp: renderRmd_def create_def wf_world_def Let_def split_def
      split: sum.splits option.splits)

lemma terminateRenderRmd_wf: "wf_world w \<Longrightarrow> wf_world (snd (terminateRenderRmd w))"
  by (auto simp: terminateRenderRmd_def wf_world_def split: option.splits)

lemma isRenderRunning_wf:
  "wf_world w \<Longrightarrow>
     isRenderRunning w =
       (case s_pCurrentRender w of None \<Rightarrow> False | Some p \<Rightarrow> isRunning_m (heap w ! p))"
  by (auto simp: isRenderRunning_def wf_world_def deref_def isRunning_def split: option.splits)

lemma performRender_launch_failure:
  assumes "rScriptPath env = Inl error"
  shows "\<exists>resultJson.
     performRender env this encoding job =
       (job\<lparr>encoding_m := encoding, isRunning_m := False\<rparr>,
        [kRmdRenderOutput (CompileOutput kCompileOutputError
           (''Error rendering R Markdown for '' @ createAliasedPath env (targetFile_m job) @
            '' '' @ summary error)),
         kRmdRenderCompleted resultJson],
        []) \<and>
     json_get resultJson ''succeeded'' = Some (JBool False) \<and>
     json_get resultJson ''output_file'' = Some (JStr (createAliasedPath env (outputFile_m job)))"
proof -
  obtain r where r:
    "terminate_bool env False (job\<lparr>encoding_m := encoding\<rparr>) =
       (job\<lparr>encoding_m := encoding, isRunning_m := False\<rparr>, [kRmdRenderCompleted r])"
    "json_get r ''succeeded'' = Some (JBool False)"
    "json_get r ''output_file'' = Some (JStr (createAliasedPath env (outputFile_m job)))"
    using terminate_bool_event [of env False "job\<lparr>encoding_m := encoding\<rparr>"] by auto
  have "performRender env this encoding job =
       (job\<lparr>encoding_m := encoding, isRunning_m := False\<rparr>,
        [kRmdRenderOutput (CompileOutput kCompileOutputError
           (''Error rendering R Markdown for '' @ createAliasedPath env (targetFile_m job) @
            '' '' @ summary error)),
         kRmdRenderCompleted r],
        [])"
    by (simp add: performRender_def assms terminateWithError_def terminateWithError_message_def
        enqueRenderOutput_def r(1) Let_def)
  with r show ?thesis by blast
qed

lemma performRender_launched:
  assumes "rScriptPath env = Inr rProgramPath"
  shows "\<exists>pr. performRender env this encoding job = (job\<lparr>encoding_m := encoding\<rparr>, [], [pr]) \<and>
           proc_job pr = this \<and> proc_allOutput pr = [] \<and>
           proc_program pr = fp_absolutePath env rProgramPath"
  by (simp add: performRender_def assms Let_def)

lemma start_members:
  "\<exists>job' started evs procs.
     start env this encoding job = (job', kRmdRenderStarted started # evs, procs) \<and>
     targetFile_m job' = targetFile_m job \<and> sourceLine_m job' = sourceLine_m job \<and>
     outputFile_m job' = outputFile_m job \<and> encoding_m job' = encoding \<and>
     terminationRequested_m job' = terminationRequested_m job \<and>
     isRunning_m job' = (\<not> isl (rScriptPath env)) \<and>
     json_get started ''target_file'' = Some (JStr (createAliasedPath env (targetFile_m job)))"
proof (cases "rScriptPath env")
  case (Inl error)
  let ?j = "job\<lparr>outputFormat_m :=
                 getOutputFormat env (fp_absolutePath env (targetFile_m job)) encoding,
               isRunning_m := True\<rparr>"
  from performRender_launch_failure [OF Inl, of this encoding ?j]
  obtain r where "performRender env this encoding ?j =
       (?j\<lparr>encoding_m := encoding, isRunning_m := False\<rparr>,
        [kRmdRenderOutput (CompileOutput kCompileOutputError
           (''Error rendering R Markdown for '' @ createAliasedPath env (targetFile_m ?j) @
            '' '' @ summary error)),
         kRmdRenderCompleted r], [])"
    by blast
  then show ?thesis
    by (simp add: start_def Let_def Inl json_get_json_set del: json_set.simps)
next
  case (Inr rProgramPath)
  let ?j = "job\<lparr>outputFormat_m :=
                 getOutputFormat env (fp_absolutePath env (targetFile_m job)) encoding,
               isRunning_m := True\<rparr>"
  from performRender_launched [OF Inr, of this encoding ?j]
  obtain pr where "performRender env this encoding ?j = (?j\<lparr>encoding_m := encoding\<rparr>, [], [pr])"
    by blast
  then show ?thesis
    by (simp add: start_def Let_def Inr json_get_json_set del: json_set.simps)
qed

text \<open>
  Claim C1. For a request whose parameters \<open>readParams\<close> accepts: while the current job
  is running, \<open>renderRmd\<close> answers false and changes nothing (no job, not the slot, no
  event, no program); otherwise it answers true, a new job for the resolved file, line
  and encoding stands in the heap, the slot points to it, and its events begin with the
  event that it started.
\<close>

theorem renderRmd_single_job:
  assumes "readParams env (params request) = Inr (file, line, encoding)"
  shows "(isRenderRunning w \<longrightarrow> renderRmd env request w = (Inr False, w)) \<and>
         (\<not> isRenderRunning w \<longrightarrow>
            (\<exists>job started evs procs.
               renderRmd env request w =
                 (Inr True,
                  \<lparr>heap = heap w @ [job], s_pCurrentRender = Some (length (heap w)),
                   clientEvents = clientEvents w @ kRmdRenderStarted started # evs,
                   supervisor = supervisor w @ procs\<rparr>) \<and>
               targetFile_m job = resolveAliasedPath env file \<and> sourceLine_m job = line \<and>
               encoding_m job = encoding \<and> \<not> terminationRequested_m job \<and>
               outputFile_m job = emptyPath \<and> isRunning_m job = (\<not> isl (rScriptPath env))))"
proof (intro conjI impI)
  assume "isRenderRunning w"
  then show "renderRmd env request w = (Inr False, w)"
    by (simp add: renderRmd_def assms)
next
  assume nr: "\<not> isRenderRunning w"
  from start_members [of env "length (heap w)" encoding
      "new_RenderRmd (resolveAliasedPath env file) line"]
  obtain job started evs procs where
    s: "start env (length (heap w)) encoding (new_RenderRmd (resolveAliasedPath env file) line) =
          (job, kRmdRenderStarted started # evs, procs)"
    and m: "targetFile_m job = resolveAliasedPath env file" "sourceLine_m job = line"
      "encoding_m job = encoding" "\<not> terminationRequested_m job" "outputFile_m job = emptyPath"
      "isRunning_m job = (\<not> isl (rScriptPath env))"
    by (auto simp: new_RenderRmd_def)
  have "renderRmd env request w =
          (Inr True,
           \<lparr>heap = heap w @ [job], s_pCurrentRender = Some (length (heap w)),
            clientEvents = clientEvents w @ kRmdRenderStarted started # evs,
            supervisor = supervisor w @ procs\<rparr>)"
    by (simp add: renderRmd_def assms nr create_def Let_def s)
  with m show "\<exists>job started evs procs.
               renderRmd env request w =
                 (Inr True,
                  \<lparr>heap = heap w @ [job], s_pCurrentRender = Some (length (heap w)),
                   clientEvents = clientEvents w @ kRmdRenderStarted started # evs,
                   supervisor = supervisor w @ procs\<rparr>) \<and>
               targetFile_m job = resolveAliasedPath env file \<and> sourceLine_m job = line \<and>
               encoding_m job = encoding \<and> \<not> terminationRequested_m job \<and>
               outputFile_m job = emptyPath \<and> isRunning_m job = (\<not> isl (rScriptPath env))"
    by blast
qed

theorem renderRmd_single_job_witness:
  "readParams (sample_env []) (params sample_request) = Inr (''/home/u/doc.Rmd'', 3, ''UTF-8'') \<and>
   isRenderRunning sample_running_world \<and>
   renderRmd (sample_env []) sample_request sample_running_world =
     (Inr False, sample_running_world) \<and>
   \<not> isRenderRunning initial_world \<and>
   fst (renderRmd (sample_env []) sample_request initial_world) = Inr True \<and>
   s_pCurrentRender (snd (renderRmd (sample_env []) sample_request initial_world)) = Some 0"
proof -
  have p: "readParams (sample_env []) (params sample_request) =
             Inr (''/home/u/doc.Rmd'', 3, ''UTF-8'')"
    by (simp add: sample_env_def sample_request_def)
  have r: "isRenderRunning sample_running_world"
    by (simp add: isRenderRunning_def sample_running_world_def deref_def isRunning_def
        sample_job_def)
  have n: "\<not> isRenderRunning initial_world"
    by (simp add: isRenderRunning_def initial_world_def)
  from renderRmd_single_job [OF p, of sample_running_world] r
  have a: "renderRmd (sample_env []) sample_request sample_running_world =
             (Inr False, sample_running_world)"
    by simp
  from renderRmd_single_job [OF p, of initial_world] n
  have b: "fst (renderRmd (sample_env []) sample_request initial_world) = Inr True \<and>
           s_pCurrentRender (snd (renderRmd (sample_env []) sample_request initial_world)) = Some 0"
    by (auto simp: initial_world_def)
  from p r a n b show ?thesis by simp
qed

lemma start_launch_failure:
  assumes "rScriptPath env = Inl error"
  shows "\<exists>started resultJson.
     start env this encoding job =
       (job\<lparr>outputFormat_m :=
               getOutputFormat env (fp_absolutePath env (targetFile_m job)) encoding,
             encoding_m := encoding, isRunning_m := False\<rparr>,
        [kRmdRenderStarted started,
         kRmdRenderOutput (CompileOutput kCompileOutputError
           (''Error rendering R Markdown for '' @ createAliasedPath env (targetFile_m job) @
            '' '' @ summary error)),
         kRmdRenderCompleted resultJson],
        []) \<and>
     json_get resultJson ''succeeded'' = Some (JBool False) \<and>
     json_get resultJson ''output_file'' = Some (JStr (createAliasedPath env (outputFile_m job)))"
proof -
  let ?j = "job\<lparr>outputFormat_m :=
                 getOutputFormat env (fp_absolutePath env (targetFile_m job)) encoding,
               isRunning_m := True\<rparr>"
  from performRender_launch_failure [OF assms, of this encoding ?j]
  obtain r where r: "performRender env this encoding ?j =
       (?j\<lparr>encoding_m := encoding, isRunning_m := False\<rparr>,
        [kRmdRenderOutput (CompileOutput kCompileOutputError
           (''Error rendering R Markdown for '' @ createAliasedPath env (targetFile_m ?j) @
            '' '' @ summary error)),
         kRmdRenderCompleted r], [])"
    "json_get r ''succeeded'' = Some (JBool False)"
    "json_get r ''output_file'' = Some (JStr (createAliasedPath env (outputFile_m ?j)))"
    by blast
  from r(1) have "\<exists>started. start env this encoding job =
       (job\<lparr>outputFormat_m :=
               getOutputFormat env (fp_absolutePath env (targetFile_m job)) encoding,
             encoding_m := encoding, isRunning_m := False\<rparr>,
        [kRmdRenderStarted started,
         kRmdRenderOutput (CompileOutput kCompileOutputError
           (''Error rendering R Markdown for '' @ createAliasedPath env (targetFile_m job) @
            '' '' @ summary error)),
         kRmdRenderCompleted r],
        [])"
    by (simp add: start_def Let_def del: json_set.simps)
  with r(2,3) show ?thesis by auto
qed

text \<open>
  Claim C8. When \<open>rScriptPath\<close> fails as a job starts, the job publishes, after the event
  that it started, one output event of the error type, whose text is the fixed
  introduction, the aliased target path and the summary of the error, and then the
  completion event with \<open>succeeded = false\<close> and the alias of the unset path as output
  file. No program is launched, the RPC succeeds, and no render is running afterwards,
  so the next request is taken.
\<close>

theorem launch_failure_reported:
  assumes "readParams env (params request) = Inr (file, line, encoding)"
    and "\<not> isRenderRunning w"
    and "rScriptPath env = Inl error"
  shows "\<exists>job started resultJson.
     renderRmd env request w =
       (Inr True,
        \<lparr>heap = heap w @ [job], s_pCurrentRender = Some (length (heap w)),
         clientEvents = clientEvents w @
           [kRmdRenderStarted started,
            kRmdRenderOutput (CompileOutput kCompileOutputError
              (''Error rendering R Markdown for '' @
               createAliasedPath env (resolveAliasedPath env file) @ '' '' @ summary error)),
            kRmdRenderCompleted resultJson],
         supervisor = supervisor w\<rparr>) \<and>
     json_get resultJson ''succeeded'' = Some (JBool False) \<and>
     json_get resultJson ''output_file'' = Some (JStr (createAliasedPath env emptyPath)) \<and>
     outputFile_m job = emptyPath \<and> \<not> isRunning_m job \<and>
     \<not> isRenderRunning (snd (renderRmd env request w))"
proof -
  let ?new = "new_RenderRmd (resolveAliasedPath env file) line"
  let ?job = "?new\<lparr>outputFormat_m :=
                 getOutputFormat env (fp_absolutePath env (targetFile_m ?new)) encoding,
               encoding_m := encoding, isRunning_m := False\<rparr>"
  from start_launch_failure [OF assms(3), of "length (heap w)" encoding ?new]
  obtain started r where
    s: "start env (length (heap w)) encoding ?new =
         (?job,
          [kRmdRenderStarted started,
           kRmdRenderOutput (CompileOutput kCompileOutputError
             (''Error rendering R Markdown for '' @ createAliasedPath env (targetFile_m ?new) @
              '' '' @ summary error)),
           kRmdRenderCompleted r],
          [])"
    and r: "json_get r ''succeeded'' = Some (JBool False)"
      "json_get r ''output_file'' = Some (JStr (createAliasedPath env (outputFile_m ?new)))"
    by blast
  have t: "targetFile_m ?new = resolveAliasedPath env file" "outputFile_m ?new = emptyPath"
    by (simp_all add: new_RenderRmd_def)
  have res: "renderRmd env request w =
       (Inr True,
        \<lparr>heap = heap w @ [?job], s_pCurrentRender = Some (length (heap w)),
         clientEvents = clientEvents w @
           [kRmdRenderStarted started,
            kRmdRenderOutput (CompileOutput kCompileOutputError
              (''Error rendering R Markdown for '' @
               createAliasedPath env (resolveAliasedPath env file) @ '' '' @ summary error)),
            kRmdRenderCompleted r],
         supervisor = supervisor w\<rparr>)"
    using s by (simp add: renderRmd_def assms(1,2) create_def Let_def t)
  have nr: "\<not> isRenderRunning (snd (renderRmd env request w))"
    unfolding res by (simp add: isRenderRunning_def deref_def isRunning_def)
  have j: "outputFile_m ?job = emptyPath" "\<not> isRunning_m ?job"
    by (simp_all add: new_RenderRmd_def)
  from r(2) t(2) have r2: "json_get r ''output_file'' = Some (JStr (createAliasedPath env emptyPath))"
    by simp
  from res r(1) r2 j nr show ?thesis
    by (intro exI [of _ ?job] exI [of _ started] exI [of _ r] conjI)
qed

theorem launch_failure_reported_witness:
  "\<exists>job started resultJson.
     renderRmd ((sample_env [])\<lparr>rScriptPath := Inl (Error ''R not found'')\<rparr>) sample_request
         initial_world =
       (Inr True,
        \<lparr>heap = [job], s_pCurrentRender = Some 0,
         clientEvents =
           [kRmdRenderStarted started,
            kRmdRenderOutput (CompileOutput kCompileOutputError
              ''Error rendering R Markdown for /home/u/doc.Rmd R not found''),
            kRmdRenderCompleted resultJson],
         supervisor = []\<rparr>) \<and>
     json_get resultJson ''succeeded'' = Some (JBool False) \<and>
     json_get resultJson ''output_file'' = Some (JStr [])"
proof -
  let ?env = "(sample_env [])\<lparr>rScriptPath := Inl (Error ''R not found'')\<rparr>"
  have p: "readParams ?env (params sample_request) = Inr (''/home/u/doc.Rmd'', 3, ''UTF-8'')"
    by (simp add: sample_env_def sample_request_def)
  have n: "\<not> isRenderRunning initial_world"
    by (simp add: isRenderRunning_def initial_world_def)
  have e: "rScriptPath ?env = Inl (Error ''R not found'')"
    by simp
  from launch_failure_reported [OF p n e] show ?thesis
    by (auto simp: initial_world_def sample_env_def emptyPath_def)
qed

text \<open>
  Claim C9. \<open>terminateRenderRmd\<close> always returns success. With no render running it
  changes nothing. With the current job running it sets the termination flag of that
  job and nothing else, after which the \<open>onContinue\<close> callback of every program bound
  to the job answers false.
\<close>

theorem terminateRenderRmd_succeeds:
  "fst (terminateRenderRmd w) = None \<and>
   (\<not> isRenderRunning w \<longrightarrow> snd (terminateRenderRmd w) = w) \<and>
   (isRenderRunning w \<longrightarrow>
      (\<exists>p job.
         s_pCurrentRender w = Some p \<and> deref w p = Some job \<and> isRunning_m job \<and>
         snd (terminateRenderRmd w) =
           w\<lparr>heap := (heap w)[p := job\<lparr>terminationRequested_m := True\<rparr>]\<rparr> \<and>
         deref (snd (terminateRenderRmd w)) p = Some (job\<lparr>terminationRequested_m := True\<rparr>) \<and>
         (\<forall>pr. proc_job pr = p \<longrightarrow>
            cb_onContinue (snd (terminateRenderRmd w)) pr = Some False)))"
proof (intro conjI impI)
  show "fst (terminateRenderRmd w) = None"
    by (simp add: terminateRenderRmd_def split: option.split)
next
  assume "\<not> isRenderRunning w"
  then show "snd (terminateRenderRmd w) = w"
    by (simp add: terminateRenderRmd_def)
next
  assume run: "isRenderRunning w"
  then obtain p where p: "s_pCurrentRender w = Some p"
    by (auto simp: isRenderRunning_def split: option.splits)
  with run obtain job where j: "deref w p = Some job" "isRunning_m job"
    by (auto simp: isRenderRunning_def isRunning_def split: option.splits)
  from j(1) have lt: "p < length (heap w)" and nth: "heap w ! p = job"
    by (auto simp: deref_def split: if_splits)
  have res: "snd (terminateRenderRmd w) =
               w\<lparr>heap := (heap w)[p := job\<lparr>terminationRequested_m := True\<rparr>]\<rparr>"
    by (simp add: terminateRenderRmd_def run p nth terminate_def)
  have d: "deref (snd (terminateRenderRmd w)) p = Some (job\<lparr>terminationRequested_m := True\<rparr>)"
    unfolding res using lt by (simp add: deref_def)
  have "\<forall>pr. proc_job pr = p \<longrightarrow> cb_onContinue (snd (terminateRenderRmd w)) pr = Some False"
    using d by (simp add: cb_onContinue_def onRenderContinue_def)
  with p j res d show "\<exists>p job.
         s_pCurrentRender w = Some p \<and> deref w p = Some job \<and> isRunning_m job \<and>
         snd (terminateRenderRmd w) =
           w\<lparr>heap := (heap w)[p := job\<lparr>terminationRequested_m := True\<rparr>]\<rparr> \<and>
         deref (snd (terminateRenderRmd w)) p = Some (job\<lparr>terminationRequested_m := True\<rparr>) \<and>
         (\<forall>pr. proc_job pr = p \<longrightarrow>
            cb_onContinue (snd (terminateRenderRmd w)) pr = Some False)"
    by blast
qed

theorem terminateRenderRmd_succeeds_witness:
  "isRenderRunning sample_running_world \<and>
   fst (terminateRenderRmd sample_running_world) = None \<and>
   cb_onContinue (snd (terminateRenderRmd sample_running_world))
     \<lparr>proc_program = ''/usr/bin/Rscript'', proc_args = [],
      proc_options = \<lparr>terminateChildren = True, workingDir = FilePath ''/home/u''\<rparr>,
      proc_job = 0, proc_encoding = ''UTF-8'', proc_allOutput = []\<rparr> = Some False \<and>
   \<not> isRenderRunning initial_world \<and>
   terminateRenderRmd initial_world = (None, initial_world)"
proof -
  have r: "isRenderRunning sample_running_world"
    by (simp add: isRenderRunning_def sample_running_world_def deref_def isRunning_def
        sample_job_def)
  have n: "\<not> isRenderRunning initial_world"
    by (simp add: isRenderRunning_def initial_world_def)
  have s: "s_pCurrentRender sample_running_world = Some 0"
    by (simp add: sample_running_world_def)
  from terminateRenderRmd_succeeds [of sample_running_world] r s
  have a: "fst (terminateRenderRmd sample_running_world) = None \<and>
     cb_onContinue (snd (terminateRenderRmd sample_running_world))
       \<lparr>proc_program = ''/usr/bin/Rscript'', proc_args = [],
        proc_options = \<lparr>terminateChildren = True, workingDir = FilePath ''/home/u''\<rparr>,
        proc_job = 0, proc_encoding = ''UTF-8'', proc_allOutput = []\<rparr> = Some False"
    by auto
  from terminateRenderRmd_succeeds [of initial_world] n
  have b: "terminateRenderRmd initial_world = (None, initial_world)"
    by (simp add: prod_eq_iff)
  from r a n b show ?thesis by simp
qed

section \<open>The output resource server\<close>

lemma find_idx_None: "find_idx c xs i = None \<longleftrightarrow> c \<notin> set xs"
  by (induction xs arbitrary: i) auto

lemma find_idx_Some:
  "find_idx c xs i = Some p \<Longrightarrow>
     i \<le> p \<and> p < i + length xs \<and> xs ! (p - i) = c \<and> c \<notin> set (take (p - i) xs)"
proof (induction xs arbitrary: i)
  case Nil
  then show ?case by simp
next
  case (Cons x xs)
  show ?case
  proof (cases "x = c")
    case True
    with Cons.prems show ?thesis by simp
  next
    case False
    with Cons.prems have "find_idx c xs (Suc i) = Some p" by simp
    from Cons.IH [OF this] False show ?thesis
      by (auto simp: Suc_diff_le nth_Cons' take_Cons')
  qed
qed

lemma find_idx_append:
  "c \<notin> set xs \<Longrightarrow> find_idx c (xs @ c # ys) i = Some (i + length xs)"
  by (induction xs arbitrary: i) auto

lemma str_find_None: "str_find s c pos = None \<longleftrightarrow> c \<notin> set (drop pos s)"
  by (simp add: str_find_def find_idx_None)

lemma str_find_Some:
  assumes "str_find s c pos = Some p"
  shows "pos \<le> p" and "p < length s" and "s ! p = c"
proof -
  from assms have f: "find_idx c (drop pos s) pos = Some p"
    by (simp add: str_find_def)
  note h = find_idx_Some [OF f]
  from h show "pos \<le> p" by simp
  from h have "pos \<le> p" and "p < pos + (length s - pos)" by simp_all
  then show pl: "p < length s" by arith
  from h have "drop pos s ! (p - pos) = c" by simp
  moreover have "pos + (p - pos) = p" using h by simp
  ultimately show "s ! p = c" using pl by (simp add: nth_drop)
qed

text \<open>
  Claim C10. When the path after the mount prefix has no \<open>/\<close> at or after offset 1, the
  handler answers 404 with the body \<open>No output file found\<close> and does nothing else. The
  answer is the same whatever \<open>urlDecode\<close>, \<open>resolveAliasedPath\<close> and the file system
  would say: none of them is asked.
\<close>

theorem no_separator_not_found:
  assumes "CHR ''/'' \<notin> set (drop 1 (pathAfterPrefix env request kRmdOutputLocation))"
  shows "handleRmdOutputRequest env request = Inr [setError NotFound ''No output file found''] \<and>
         handleRmdOutputRequest
           (env\<lparr>urlDecode := decode, resolveAliasedPath := resolve, fp_exists := exists\<rparr>) request =
           Inr [setError NotFound ''No output file found'']"
proof -
  from assms have "str_find (pathAfterPrefix env request kRmdOutputLocation) CHR ''/'' 1 = None"
    by (simp add: str_find_None)
  then show ?thesis
    by (simp add: handleRmdOutputRequest_def Let_def)
qed

theorem no_separator_not_found_witness:
  "CHR ''/'' \<notin> set (drop 1 ''%2Fhome%2Fu%2Fdoc.html'') \<and>
   handleRmdOutputRequest (sample_env [FilePath ''/home/u/doc.html''])
     \<lparr>uri = ''/rmd_output/%252Fhome%252Fu%252Fdoc.html''\<rparr> =
     Inr [setError NotFound ''No output file found'']"
proof -
  have p: "pathAfterPrefix (sample_env [FilePath ''/home/u/doc.html''])
             \<lparr>uri = ''/rmd_output/%252Fhome%252Fu%252Fdoc.html''\<rparr> kRmdOutputLocation =
           ''%2Fhome%2Fu%2Fdoc.html''"
    by (simp add: sample_env_def kRmdOutputLocation_def kRmdOutput_def starts_with_def)
  have h: "CHR ''/'' \<notin> set (drop 1 ''%2Fhome%2Fu%2Fdoc.html'')"
    by simp
  from no_separator_not_found [of "sample_env [FilePath ''/home/u/doc.html'']"
      "\<lparr>uri = ''/rmd_output/%252Fhome%252Fu%252Fdoc.html''\<rparr>"] p h
  show ?thesis by simp
qed

text \<open>
  Claim C5. The request \<open><mount>/<artifact>/mathjax\<close> for an artifact that exists, with
  nothing after the reserved segment: the remaining path \<open>mathjax\<close> has seven
  characters and \<open>substr(sizeof(kMathjaxSegment))\<close> starts at the eighth, so the handler
  leaves with \<open>std::out_of_range\<close> and serves nothing.
\<close>

theorem mathjax_segment_alone_throws:
  "handleRmdOutputRequest (sample_env [FilePath ''/home/u/doc.html''])
     \<lparr>uri = ''/rmd_output/%252Fhome%252Fu%252Fdoc.html/mathjax''\<rparr> = Inl out_of_range"
  by (simp add: handleRmdOutputRequest_def sample_env_def kRmdOutputLocation_def kRmdOutput_def
      starts_with_def str_find_def substr2_def substr_def kMathjaxSegment_def
      sizeof_kMathjaxSegment_def Let_def)

text \<open>
  The handler on every path that does have the separator: the encoded artifact, a
  \<open>/\<close> and the remaining path.
\<close>

lemma sizeof_kMathjaxSegment_8: "sizeof_kMathjaxSegment = 8"
  by (simp add: sizeof_kMathjaxSegment_def kMathjaxSegment_def)

theorem handleRmdOutputRequest_cases:
  assumes path: "pathAfterPrefix env request kRmdOutputLocation = encoded @ CHR ''/'' # rest"
    and enc: "encoded \<noteq> []" "CHR ''/'' \<notin> set (tl encoded)"
  shows "handleRmdOutputRequest env request =
     (let outputFile = urlDecode env encoded; outputFilePath = resolveAliasedPath env outputFile
      in if \<not> fp_exists env outputFilePath then Inr [setError NotFound (outputFile @ '' not found'')]
         else if rest = [] then Inr [setNoCacheHeaders, setFile outputFilePath new_MathjaxFilter]
         else if starts_with rest kMathjaxSegment then
           (if length rest < sizeof_kMathjaxSegment then Inl out_of_range
            else Inr [setCacheableFile
                        (fp_complete env (mathJaxDirectory env) (drop sizeof_kMathjaxSegment rest))])
         else Inr [setCacheableFile (fp_childPath env (fp_parent env outputFilePath) rest)])"
proof -
  let ?path = "encoded @ CHR ''/'' # rest"
  from enc(1) have d: "drop 1 ?path = tl encoded @ CHR ''/'' # rest"
    by (cases encoded) auto
  from enc(1) have l: "Suc (length (tl encoded)) = length encoded"
    by (cases encoded) auto
  have pos: "str_find ?path CHR ''/'' 1 = Some (length encoded)"
    unfolding str_find_def d using find_idx_append [OF enc(2), of rest 1] l by simp
  show ?thesis
    apply (simp only: handleRmdOutputRequest_def path Let_def pos option.case)
    apply (simp add: substr2_def substr_def)
    done
qed

text \<open>Four requests for an artifact: a MathJax resource, the artifact itself, a resource
  beside it, and an artifact that does not exist.\<close>

theorem handleRmdOutputRequest_cases_witness:
  "handleRmdOutputRequest (sample_env [FilePath ''/home/u/doc.html''])
     \<lparr>uri = ''/rmd_output/%252Fhome%252Fu%252Fdoc.html/mathjax/MathJax.js''\<rparr> =
     Inr [setCacheableFile (FilePath ''/usr/lib/R/library/rmarkdown/rmd/h/m/MathJax.js'')] \<and>
   handleRmdOutputRequest (sample_env [FilePath ''/home/u/doc.html''])
     \<lparr>uri = ''/rmd_output/%252Fhome%252Fu%252Fdoc.html/''\<rparr> =
     Inr [setNoCacheHeaders, setFile (FilePath ''/home/u/doc.html'') new_MathjaxFilter] \<and>
   handleRmdOutputRequest (sample_env [FilePath ''/home/u/doc.html''])
     \<lparr>uri = ''/rmd_output/%252Fhome%252Fu%252Fdoc.html/img/plot.png''\<rparr> =
     Inr [setCacheableFile (FilePath ''/home/u/img/plot.png'')] \<and>
   handleRmdOutputRequest (sample_env [FilePath ''/home/u/doc.html''])
     \<lparr>uri = ''/rmd_output/%252Fhome%252Fu%252Fgone.html/''\<rparr> =
     Inr [setError NotFound ''/home/u/gone.html not found'']"
proof -
  let ?env = "sample_env [FilePath ''/home/u/doc.html'']"
  have a: "handleRmdOutputRequest ?env
     \<lparr>uri = ''/rmd_output/'' @ ''%252Fhome%252Fu%252Fdoc.html/mathjax/MathJax.js''\<rparr> =
     Inr [setCacheableFile (FilePath ''/usr/lib/R/library/rmarkdown/rmd/h/m/MathJax.js'')]"
    by (subst handleRmdOutputRequest_cases
          [where encoded = "''%2Fhome%2Fu%2Fdoc.html''" and rest = "''mathjax/MathJax.js''"])
       (simp_all add: sample_env_def kRmdOutputLocation_def kRmdOutput_def starts_with_def sizeof_kMathjaxSegment_8
          kMathjaxSegment_def mathJaxDirectory_def)
  have b: "handleRmdOutputRequest ?env
     \<lparr>uri = ''/rmd_output/'' @ ''%252Fhome%252Fu%252Fdoc.html/''\<rparr> =
     Inr [setNoCacheHeaders, setFile (FilePath ''/home/u/doc.html'') new_MathjaxFilter]"
    by (subst handleRmdOutputRequest_cases
          [where encoded = "''%2Fhome%2Fu%2Fdoc.html''" and rest = "[]"])
       (simp_all add: sample_env_def kRmdOutputLocation_def kRmdOutput_def starts_with_def)
  have c: "handleRmdOutputRequest ?env
     \<lparr>uri = ''/rmd_output/'' @ ''%252Fhome%252Fu%252Fdoc.html/img/plot.png''\<rparr> =
     Inr [setCacheableFile (FilePath ''/home/u/img/plot.png'')]"
    by (subst handleRmdOutputRequest_cases
          [where encoded = "''%2Fhome%2Fu%2Fdoc.html''" and rest = "''img/plot.png''"])
       (simp_all add: sample_env_def kRmdOutputLocation_def kRmdOutput_def starts_with_def kMathjaxSegment_def sample_dirname_def)
  have d: "handleRmdOutputRequest ?env
     \<lparr>uri = ''/rmd_output/'' @ ''%252Fhome%252Fu%252Fgone.html/''\<rparr> =
     Inr [setError NotFound ''/home/u/gone.html not found'']"
    by (subst handleRmdOutputRequest_cases
          [where encoded = "''%2Fhome%2Fu%2Fgone.html''" and rest = "[]"])
       (simp_all add: sample_env_def kRmdOutputLocation_def kRmdOutput_def starts_with_def)
  from a b c d show ?thesis by simp
qed

section \<open>The content rewriter\<close>


















end
